theory Spec2Isabelle
  imports Main
begin

section \<open>The type lattice and the symbol tables\<close>

text \<open>
  Modelled from the spec: the class \<open>Type\<close> of \<open>sherlock.codelib.analyzer.variable\<close>,
  a closed enumeration of four tags with the single predicate \<open>is_number\<close>, which holds
  for \<open>NUMBER\<close> only.
\<close>

datatype Type = NUMBER | STRING | LIST | VOID

definition is_number :: "Type \<Rightarrow> bool" where
  "is_number t = (t = NUMBER)"

text \<open>
  Modelled from the spec: \<open>Variable(name, var_type)\<close>. The analyzer stores whatever
  \<open>get_type\<close> returned, and \<open>get_type\<close> can return Python's \<open>None\<close>, so the stored
  type is optional.
\<close>

datatype Variable = Variable (name: string) (var_type: "Type option")

text \<open>
  Modelled from the spec: \<open>Variables\<close>, a name-keyed table. \<open>append\<close> inserts or
  shadows by name, a lookup gives the entry or nothing.
\<close>

type_synonym Variables = "string \<rightharpoonup> Variable"

definition variables_append :: "Variables \<Rightarrow> Variable \<Rightarrow> Variables" where
  "variables_append vs v = vs(name v \<mapsto> v)"

text \<open>
  A reference to a \<open>Variables\<close> object: the analyzer's own table (\<open>self.variables\<close>) or
  the table allocated by the \<open>k\<close>-th run of \<open>analysis_function\<close>.
\<close>

datatype variables_ref = Self_variables | Local nat

text \<open>
  The generator is an external collaborator. Only its constructor arguments are kept:
  the source text, whether \<open>functions=self.functions\<close> was passed, and the reference to
  the variable table.
\<close>

datatype CodeGenerator =
  CodeGenerator (gen_code: string) (gen_functions: bool) (gen_variables: variables_ref)

text \<open>
  Modelled from the spec: \<open>Function(name, args_type, return_type, generator)\<close> and the
  table \<open>Functions\<close>, keyed by name. \<open>is_args_type_match\<close> compares the cached argument
  types with the call's, element by element.
\<close>

datatype Function =
  Function (func_name: string) (args_type: "Type option list")
    (return_type: Type) (generator: CodeGenerator)

type_synonym Functions = "string \<rightharpoonup> Function"

definition functions_append :: "Functions \<Rightarrow> Function \<Rightarrow> Functions" where
  "functions_append fs f = fs(func_name f \<mapsto> f)"

definition is_args_type_match :: "Function \<Rightarrow> Type option list \<Rightarrow> bool" where
  "is_args_type_match f ts = list_all2 (=) (args_type f) ts"

section \<open>The syntax tree\<close>

text \<open>
  The node classes of Python's \<open>ast\<close> module that the analyzer tests for. Every node
  class the analyzer has no branch for is \<open>Other_expr\<close> or \<open>Other_stmt\<close>, tagged with
  its class name.
\<close>

datatype operator =
  Add | Sub | Mult | MatMult | Div | Mod | Pow | LShift | RShift
  | BitOr | BitXor | BitAnd | FloorDiv

fun class_name :: "operator \<Rightarrow> string" where
  "class_name Add = ''Add''"
| "class_name Sub = ''Sub''"
| "class_name Mult = ''Mult''"
| "class_name MatMult = ''MatMult''"
| "class_name Div = ''Div''"
| "class_name Mod = ''Mod''"
| "class_name Pow = ''Pow''"
| "class_name LShift = ''LShift''"
| "class_name RShift = ''RShift''"
| "class_name BitOr = ''BitOr''"
| "class_name BitXor = ''BitXor''"
| "class_name BitAnd = ''BitAnd''"
| "class_name FloorDiv = ''FloorDiv''"

datatype unaryop = Invert | UNot | UAdd | USub

datatype expr =
    BinOp expr operator expr
  | UnaryOp unaryop expr
  | Num int
  | Str string
  | ListExpr "expr list"
  | Call expr "expr list"
  | Name string
  | Other_expr string

datatype stmt =
    Assign "expr list" expr
  | Expr expr
  | Return "expr option"
  | FunctionDef string "string list" "stmt list"
  | ImportFrom
  | Other_stmt string

section \<open>Errors and the analyzer's state\<close>

text \<open>
  The three error classes of \<open>sherlock.errors\<close> with their constructor arguments, and
  the exceptions the interpreter itself raises in the analyzer: a read of an unbound
  name, an attribute read on an object without it (the attribute is named), an index
  out of range, and the recursion limit. The recursion limit is a bound on how deeply
  function-body analyses nest.
\<close>

datatype error =
    CompileError string
  | SyntaxNotSupportError string
  | ParamTypeMismatchError string string
  | NameError string
  | AttributeError string
  | IndexError
  | RecursionError

text \<open>
  The fields of a \<open>CodeAnalyzer\<close>. \<open>module_body\<close> is \<open>self.module_node.body\<close>.
  \<open>variables\<close> is the object behind \<open>self.variables\<close>; \<open>locals\<close> is the store of the
  tables that runs of \<open>analysis_function\<close> have allocated, addressed by \<open>Local\<close>.
\<close>

record CodeAnalyzer =
  code :: string
  module_body :: "stmt list"
  functions_table :: Functions
  variables :: Variables
  locals :: "Variables list"

definition new_analyzer :: "string \<Rightarrow> stmt list \<Rightarrow> CodeAnalyzer" where
  "new_analyzer c body =
     \<lparr>code = c, module_body = body, functions_table = Map.empty, variables = Map.empty,
      locals = []\<rparr>"

text \<open>\<open>variables.append(v)\<close> on the object a reference points to.\<close>

fun append_to :: "variables_ref \<Rightarrow> Variable \<Rightarrow> CodeAnalyzer \<Rightarrow> CodeAnalyzer" where
  "append_to Self_variables v s = s\<lparr>variables := variables_append (variables s) v\<rparr>"
| "append_to (Local k) v s =
     s\<lparr>locals := (locals s)[k := variables_append (locals s ! k) v]\<rparr>"

text \<open>
  \<open>left_type.is_number and right_type.is_number\<close>: the attribute read fails on \<open>None\<close>,
  and the right operand is read only when the left one is a number.
\<close>

fun both_number :: "Type option \<Rightarrow> Type option \<Rightarrow> error + bool" where
  "both_number None right_type = Inl (AttributeError ''is_number'')"
| "both_number (Some l) right_type =
     (if is_number l then
        (case right_type of
           None \<Rightarrow> Inl (AttributeError ''is_number'')
         | Some r \<Rightarrow> Inr (is_number r))
      else Inr False)"

text \<open>
  The search of \<open>get_function_return_type\<close> through the module's top-level statements:
  the first \<open>FunctionDef\<close> with the name, as its parameter names and body.
\<close>

fun find_function_def :: "stmt list \<Rightarrow> string \<Rightarrow> (string list \<times> stmt list) option" where
  "find_function_def [] function_name = None"
| "find_function_def (FunctionDef n params body # rest) function_name =
     (if n = function_name then Some (params, body)
      else find_function_def rest function_name)"
| "find_function_def (node # rest) function_name = find_function_def rest function_name"

text \<open>
  The size of the expression a statement hands to \<open>get_type\<close>, for the termination
  argument.
\<close>

fun stmt_size :: "stmt \<Rightarrow> nat" where
  "stmt_size (Assign targets v) = Suc (size v)"
| "stmt_size (Return (Some v)) = Suc (size v)"
| "stmt_size node = 1"

section \<open>The analyzer\<close>

text \<open>
  The built-in oracle (\<open>is_system_function\<close>, \<open>SystemFunction.get_function\<close>) is a
  parameter \<open>sysf\<close>: a name is built in when \<open>sysf\<close> has a return type for it.

  The first argument bounds the nesting of function-body analyses; entering a body
  takes one unit, and at zero the recursion limit is hit.
\<close>

function (sequential) get_type ::
    "nat \<Rightarrow> (string \<rightharpoonup> Type) \<Rightarrow> expr \<Rightarrow> CodeAnalyzer \<Rightarrow> error + (Type option \<times> CodeAnalyzer)"
  and get_type_args ::
    "nat \<Rightarrow> (string \<rightharpoonup> Type) \<Rightarrow> expr list \<Rightarrow> CodeAnalyzer
      \<Rightarrow> error + (Type option list \<times> CodeAnalyzer)"
  and get_function_return_type ::
    "nat \<Rightarrow> (string \<rightharpoonup> Type) \<Rightarrow> string \<Rightarrow> Type option list \<Rightarrow> CodeAnalyzer
      \<Rightarrow> error + (Type \<times> CodeAnalyzer)"
  and analysis_function ::
    "nat \<Rightarrow> (string \<rightharpoonup> Type) \<Rightarrow> stmt list \<Rightarrow> Type option list \<Rightarrow> CodeAnalyzer
      \<Rightarrow> error + ((CodeGenerator \<times> Type) \<times> CodeAnalyzer)"
  and analysis_function_body ::
    "nat \<Rightarrow> (string \<rightharpoonup> Type) \<Rightarrow> stmt list \<Rightarrow> variables_ref \<Rightarrow> Type \<Rightarrow> CodeAnalyzer
      \<Rightarrow> error + (Type \<times> CodeAnalyzer)"
  and analysis_assign_node ::
    "nat \<Rightarrow> (string \<rightharpoonup> Type) \<Rightarrow> variables_ref \<Rightarrow> expr list \<Rightarrow> expr \<Rightarrow> CodeAnalyzer
      \<Rightarrow> error + CodeAnalyzer"
where
  "get_type n sysf (BinOp left op right) s =
     (case get_type n sysf left s of
        Inl e \<Rightarrow> Inl e
      | Inr (left_type, s1) \<Rightarrow>
          (case get_type n sysf right s1 of
             Inl e \<Rightarrow> Inl e
           | Inr (right_type, s2) \<Rightarrow>
               (if op = Add then
                  (case both_number left_type right_type of
                     Inl e \<Rightarrow> Inl e
                   | Inr b \<Rightarrow> if b then Inr (Some NUMBER, s2) else Inr (Some STRING, s2))
                else
                  (case both_number left_type right_type of
                     Inl e \<Rightarrow> Inl e
                   | Inr b \<Rightarrow>
                       if b then Inr (Some NUMBER, s2)
                       else Inl (CompileError
                              (''Can not '' @ [CHR 0x27] @ class_name op @ [CHR 0x27]
                                 @ '' operator with string.''))))))"
| "get_type n sysf (UnaryOp op operand) s = Inl (NameError ''operand'')"
| "get_type n sysf (Num v) s = Inr (Some NUMBER, s)"
| "get_type n sysf (Str v) s = Inr (Some STRING, s)"
| "get_type n sysf (ListExpr elts) s = Inr (Some LIST, s)"
| "get_type n sysf (Call func args) s =
     (case get_type_args n sysf args s of
        Inl e \<Rightarrow> Inl e
      | Inr (types, s1) \<Rightarrow>
          (case func of
             Name fid \<Rightarrow>
               (case get_function_return_type n sysf fid types s1 of
                  Inl e \<Rightarrow> Inl e
                | Inr (t, s2) \<Rightarrow> Inr (Some t, s2))
           | _ \<Rightarrow> Inl (AttributeError ''id'')))"
| "get_type n sysf (Name ident) s =
     (case variables s ident of
        None \<Rightarrow> Inl (AttributeError ''var_type'')
      | Some v \<Rightarrow> Inr (var_type v, s))"
| "get_type n sysf (Other_expr k) s = Inr (None, s)"
| "get_type_args n sysf [] s = Inr ([], s)"
| "get_type_args n sysf (arg # args) s =
     (case get_type n sysf arg s of
        Inl e \<Rightarrow> Inl e
      | Inr (t, s1) \<Rightarrow>
          (case get_type_args n sysf args s1 of
             Inl e \<Rightarrow> Inl e
           | Inr (ts, s2) \<Rightarrow> Inr (t # ts, s2)))"
| "get_function_return_type n sysf fname types s =
     (case sysf fname of
        Some t \<Rightarrow> Inr (t, s)
      | None \<Rightarrow>
          (case functions_table s fname of
             Some f \<Rightarrow>
               (if is_args_type_match f types then Inr (return_type f, s)
                else Inl (ParamTypeMismatchError
                       (''Function '' @ [CHR 0x27] @ ''%s'' @ [CHR 0x27]
                          @ '' parameter type is not match'') fname))
           | None \<Rightarrow>
               (case find_function_def (module_body s) fname of
                  None \<Rightarrow> Inr (STRING, s)
                | Some (params, body) \<Rightarrow>
                    (case n of
                       0 \<Rightarrow> Inl RecursionError
                     | Suc m \<Rightarrow>
                         (case analysis_function m sysf body types s of
                            Inl e \<Rightarrow> Inl e
                          | Inr ((g, rt), s1) \<Rightarrow>
                              Inr (rt, s1\<lparr>functions_table :=
                                     functions_append (functions_table s1)
                                       (Function fname types rt g)\<rparr>))))))"
| "analysis_function n sysf body types s =
     (case analysis_function_body n sysf body (Local (length (locals s))) VOID
             (s\<lparr>locals := locals s @ [Map.empty]\<rparr>) of
        Inl e \<Rightarrow> Inl e
      | Inr (rt, s1) \<Rightarrow>
          Inr ((CodeGenerator (code s1) False (Local (length (locals s))), rt), s1))"
| "analysis_function_body n sysf [] vars rt s = Inr (rt, s)"
| "analysis_function_body n sysf (Assign targets v # rest) vars rt s =
     (case analysis_assign_node n sysf vars targets v s of
        Inl e \<Rightarrow> Inl e
      | Inr s1 \<Rightarrow> analysis_function_body n sysf rest vars rt s1)"
| "analysis_function_body n sysf (Return None # rest) vars rt s =
     analysis_function_body n sysf rest vars VOID s"
| "analysis_function_body n sysf (Return (Some v) # rest) vars rt s =
     (case get_type n sysf v s of
        Inl e \<Rightarrow> Inl e
      | Inr (t, s1) \<Rightarrow>
          analysis_function_body n sysf rest vars
            (case t of None \<Rightarrow> VOID | Some ty \<Rightarrow> ty) s1)"
| "analysis_function_body n sysf (node # rest) vars rt s =
     analysis_function_body n sysf rest vars rt s"
| "analysis_assign_node n sysf vars targets v s =
     (if length targets > 1 then
        Inl (SyntaxNotSupportError ''Tuple assignment is not support yet.'')
      else
        (case targets of
           [] \<Rightarrow> Inl IndexError
         | target # _ \<Rightarrow>
             (case target of
                Name ident \<Rightarrow>
                  (case get_type n sysf v s of
                     Inl e \<Rightarrow> Inl e
                   | Inr (t, s1) \<Rightarrow> Inr (append_to vars (Variable ident t) s1))
              | _ \<Rightarrow> Inl (AttributeError ''id''))))"
  by pat_completeness auto

text \<open>
  Termination: the bound decreases when a function body is entered; under the same
  bound every call goes to a smaller piece of syntax. \<open>stmt_size\<close> counts the
  expression a statement hands to \<open>get_type\<close>.
\<close>

termination
  by (relation "inv_image (less_than <*lex*> less_than)
        (\<lambda>x. case x of
           Inl (Inl (n, sysf, e, s)) \<Rightarrow> (n, 2 * size e + 2)
         | Inl (Inr (Inl (n, sysf, es, s))) \<Rightarrow> (n, 2 * size_list size es + 3)
         | Inl (Inr (Inr (n, sysf, fname, types, s))) \<Rightarrow> (n, 0)
         | Inr (Inl (n, sysf, body, types, s)) \<Rightarrow> (n, 2 * sum_list (map stmt_size body) + 4)
         | Inr (Inr (Inl (n, sysf, body, vars, rt, s))) \<Rightarrow>
             (n, 2 * sum_list (map stmt_size body) + 3)
         | Inr (Inr (Inr (n, sysf, vars, targets, v, s))) \<Rightarrow> (n, 2 * size v + 3))")
     auto

text \<open>
  The module-level driver \<open>analysis\<close>: one pass over the top-level statements, with
  assignments written to \<open>self.variables\<close>. \<open>analyze_cmd\<close> is an external collaborator
  and leaves the analyzer as it is.
\<close>

fun analysis_body ::
    "nat \<Rightarrow> (string \<rightharpoonup> Type) \<Rightarrow> stmt list \<Rightarrow> CodeAnalyzer \<Rightarrow> error + CodeAnalyzer" where
  "analysis_body n sysf [] s = Inr s"
| "analysis_body n sysf (Assign targets v # rest) s =
     (case analysis_assign_node n sysf Self_variables targets v s of
        Inl e \<Rightarrow> Inl e
      | Inr s1 \<Rightarrow> analysis_body n sysf rest s1)"
| "analysis_body n sysf (Expr (Call func args) # rest) s =
     (case get_type n sysf (Call func args) s of
        Inl e \<Rightarrow> Inl e
      | Inr (t, s1) \<Rightarrow> analysis_body n sysf rest s1)"
| "analysis_body n sysf (node # rest) s = analysis_body n sysf rest s"

definition analysis ::
    "nat \<Rightarrow> (string \<rightharpoonup> Type) \<Rightarrow> CodeAnalyzer \<Rightarrow> error + (CodeGenerator \<times> CodeAnalyzer)" where
  "analysis n sysf s =
     (case analysis_body n sysf (module_body s) s of
        Inl e \<Rightarrow> Inl e
      | Inr s1 \<Rightarrow> Inr (CodeGenerator (code s1) True Self_variables, s1))"

text \<open>
  The equations of the three functions with a single, unconditional equation are
  unfolded by name only.
\<close>

declare get_function_return_type.simps [simp del]
declare analysis_function.simps [simp del]
declare analysis_assign_node.simps [simp del]

section \<open>Invariants and example modules\<close>


definition keeps_variables :: "CodeAnalyzer \<Rightarrow> CodeAnalyzer \<Rightarrow> bool" where
  "keeps_variables s s' \<longleftrightarrow> variables s' = variables s"

text \<open>
  Example modules, as the analyzer's constructor leaves them: the source text and the
  top-level statements of its parse.
\<close>

definition adds_comparison :: CodeAnalyzer where
  "adds_comparison =
     new_analyzer ''x = 1 + (1 < 2)''
       [Assign [Name ''x''] (BinOp (Num 1) Add (Other_expr ''Compare''))]"

definition subtracts_comparison :: CodeAnalyzer where
  "subtracts_comparison =
     new_analyzer ''x = 1 - (1 < 2)''
       [Assign [Name ''x''] (BinOp (Num 1) Sub (Other_expr ''Compare''))]"

definition two_returns :: CodeAnalyzer where
  "two_returns =
     new_analyzer (''def f(): return 1; return []'' @ [CHR 0x0A] @ ''f()'')
       [FunctionDef ''f'' [] [Return (Some (Num 1)), Return (Some (ListExpr []))],
        Expr (Call (Name ''f'') [])]"

definition two_returns_resolved :: CodeAnalyzer where
  "two_returns_resolved =
     two_returns\<lparr>
       functions_table := [''f'' \<mapsto> Function ''f'' [] LIST
          (CodeGenerator (code two_returns) False (Local 0))],
       locals := [Map.empty]\<rparr>"


definition uses_parameter :: CodeAnalyzer where
  "uses_parameter =
     new_analyzer (''def f(a): return a'' @ [CHR 0x0A] @ ''f(1)'')
       [FunctionDef ''f'' [''a''] [Return (Some (Name ''a''))],
        Expr (Call (Name ''f'') [Num 1])]"

definition shadows_global :: CodeAnalyzer where
  "shadows_global =
     new_analyzer (''x = []'' @ [CHR 0x0A] @ ''def f(): x = 1; return x'' @ [CHR 0x0A] @ ''f()'')
       [Assign [Name ''x''] (ListExpr []),
        FunctionDef ''f'' [] [Assign [Name ''x''] (Num 1), Return (Some (Name ''x''))],
        Expr (Call (Name ''f'') [])]"


definition assigns_dict :: CodeAnalyzer where
  "assigns_dict =
     new_analyzer (''x = {}'' @ [CHR 0x0A] @ ''y = x'')
       [Assign [Name ''x''] (Other_expr ''Dict''), Assign [Name ''y''] (Name ''x'')]"

text \<open>The analyzers that \<open>analysis\<close> leaves for three of them.\<close>

definition shadows_global_analysed :: CodeAnalyzer where
  "shadows_global_analysed =
     shadows_global\<lparr>
       functions_table := [''f'' \<mapsto> Function ''f'' [] LIST
          (CodeGenerator (code shadows_global) False (Local 0))],
       variables := [''x'' \<mapsto> Variable ''x'' (Some LIST)],
       locals := [[''x'' \<mapsto> Variable ''x'' (Some NUMBER)]]\<rparr>"



definition assigns_dict_analysed :: CodeAnalyzer where
  "assigns_dict_analysed =
     assigns_dict\<lparr>
       variables := [''x'' \<mapsto> Variable ''x'' None, ''y'' \<mapsto> Variable ''y'' None]\<rparr>"

section \<open>Lemmas\<close>

lemmas eval_simps =
  new_analyzer_def get_function_return_type.simps analysis_function.simps
  analysis_assign_node.simps functions_append_def variables_append_def
  is_args_type_match_def analysis_def

lemma find_function_def_None_iff:
  "find_function_def body fname = None \<longleftrightarrow>
     (\<forall>params b. FunctionDef fname params b \<notin> set body)"
  by (induction body fname rule: find_function_def.induct) auto

text \<open>
  C1. A binary \<open>Add\<close> whose operands both infer to a type: the result is \<open>NUMBER\<close>
  exactly when both operand types are \<open>NUMBER\<close>, in every other case it is \<open>STRING\<close>,
  and no error is raised. The right operand is inferred in the state the left one
  leaves.
\<close>

lemma class_name_inj: "class_name op' = class_name op \<Longrightarrow> op' = op"
  by (cases op; cases op'; simp)

subsection \<open>What every step of the analyzer keeps\<close>







lemma keeps_variables_refl: "keeps_variables s s"
  by (simp add: keeps_variables_def)

lemma keeps_variables_trans:
  "keeps_variables s s1 \<Longrightarrow> keeps_variables s1 s2 \<Longrightarrow> keeps_variables s s2"
  by (simp add: keeps_variables_def)

lemma keeps_variables_locals:
  "keeps_variables s s1 \<Longrightarrow> keeps_variables s (s1\<lparr>locals := l\<rparr>)"
  by (simp add: keeps_variables_def)

lemma keeps_variables_store:
  "keeps_variables s s1 \<Longrightarrow> keeps_variables s (s1\<lparr>functions_table := fs\<rparr>)"
  by (simp add: keeps_variables_def)

lemma keeps_variables_alloc:
  "keeps_variables (s\<lparr>locals := l\<rparr>) s' \<Longrightarrow> keeps_variables s s'"
  by (simp add: keeps_variables_def)

lemma analyzer_keeps_variables:
  "get_type n sysf e s = Inr (t, s') \<Longrightarrow> keeps_variables s s'"
  "get_type_args n sysf es s = Inr (ts, s') \<Longrightarrow> keeps_variables s s'"
  "get_function_return_type n sysf fname types s = Inr (rt, s') \<Longrightarrow> keeps_variables s s'"
  "analysis_function n sysf body types s = Inr (gr, s') \<Longrightarrow> keeps_variables s s'"
  "analysis_function_body n sysf body vars rt0 s = Inr (rt, s') \<Longrightarrow>
     vars \<noteq> Self_variables \<Longrightarrow> keeps_variables s s'"
  "analysis_assign_node n sysf vars targets v s = Inr s' \<Longrightarrow>
     vars \<noteq> Self_variables \<Longrightarrow> keeps_variables s s'"
proof (induction n sysf e s and n sysf es s and n sysf fname types s and n sysf body types s
         and n sysf body vars rt0 s and n sysf vars targets v s
       arbitrary: t s' and ts s' and rt s' and gr s' and rt s' and s'
       rule: get_type_get_type_args_get_function_return_type_analysis_function_analysis_function_body_analysis_assign_node.induct)
  case (1 n sysf left op right s)
  then show ?case
    by (auto split: sum.splits prod.splits if_splits intro: keeps_variables_trans)
next
  case (6 n sysf func args s)
  then show ?case
    by (auto split: sum.splits prod.splits expr.splits intro: keeps_variables_trans)
next
  case (10 n sysf arg args s)
  then show ?case
    by (auto split: sum.splits prod.splits intro: keeps_variables_trans)
next
  case (11 n sysf fname types s)
  from "11.prems" "11.IH" show ?case
    by (auto simp add: get_function_return_type.simps keeps_variables_refl
          split: option.splits if_splits prod.splits nat.splits sum.splits
          intro: keeps_variables_store)
next
  case (12 n sysf body types s)
  from "12.prems" "12.IH" show ?case
    by (auto simp add: analysis_function.simps split: sum.splits prod.splits
          intro: keeps_variables_alloc)
next
  case (14 n sysf targets v rest vars rt s)
  then show ?case
    by (auto split: sum.splits prod.splits intro: keeps_variables_trans)
next
  case (16 n sysf v rest vars rt s)
  then show ?case
    by (auto split: sum.splits prod.splits intro: keeps_variables_trans)
next
  case (18 n sysf vars targets v s)
  from "18.prems"(2) obtain k where k: "vars = Local k" by (cases vars) simp_all
  from "18.prems"(1) "18.IH" show ?case unfolding k
    by (auto simp add: analysis_assign_node.simps
          split: if_splits list.splits expr.splits sum.splits prod.splits
          intro: keeps_variables_locals)
qed (auto split: sum.splits prod.splits if_splits option.splits intro: keeps_variables_refl)


text \<open>
  At module level a name the statements walked so far never assigned has no entry in
  the module's table, and a nested pass leaves that table as it is.
\<close>

lemma analysis_body_unassigned:
  "analysis_body n sysf body s = Inr s' \<Longrightarrow> variables s ident = None
     \<Longrightarrow> \<forall>targets v. Assign targets v \<in> set body \<longrightarrow> targets \<noteq> [Name ident]
     \<Longrightarrow> variables s' ident = None"
proof (induction n sysf body s arbitrary: s' rule: analysis_body.induct)
  case (2 n sysf targets v rest s)
  from "2.prems"(1) obtain s1 where s1: "analysis_assign_node n sysf Self_variables targets v s = Inr s1"
    and rest: "analysis_body n sysf rest s1 = Inr s'"
    by (auto split: sum.splits)
  from "2.prems"(3) have ne: "targets \<noteq> [Name ident]" by simp
  from s1 ne "2.prems"(2) have "variables s1 ident = None"
    using analyzer_keeps_variables(1)
    by (fastforce simp add: analysis_assign_node.simps variables_append_def keeps_variables_def
          split: if_splits list.splits expr.splits sum.splits prod.splits)
  with "2.IH" [OF s1 rest] "2.prems"(3) show ?case by auto
next
  case (3 n sysf func args rest s)
  from "3.prems"(1) obtain t s1 where s1: "get_type n sysf (Call func args) s = Inr (t, s1)"
    and rest: "analysis_body n sysf rest s1 = Inr s'"
    by (auto split: sum.splits prod.splits simp del: get_type.simps)
  from analyzer_keeps_variables(1) [OF s1] have "variables s1 = variables s"
    by (simp add: keeps_variables_def)
  with "3.IH" [OF s1 _ rest] "3.prems" show ?case by auto
qed auto

lemma nested_pass_keeps_module_table:
  "get_function_return_type n sysf fname types s = Inr (rt, s') \<Longrightarrow>
     variables s' = variables s"
  using analyzer_keeps_variables(3) by (simp add: keeps_variables_def)

subsection \<open>The four ways a resolution returns\<close>

lemma resolve_cases:
  assumes "get_function_return_type n sysf fname types s = Inr (t, s1)"
  obtains
    (builtin) "sysf fname = Some t" "s1 = s"
  | (cached) f where "sysf fname = None" "functions_table s fname = Some f"
      "args_type f = types" "return_type f = t" "s1 = s"
  | (unknown) "sysf fname = None" "functions_table s fname = None"
      "find_function_def (module_body s) fname = None" "t = STRING" "s1 = s"
  | (analysed) params body m g s0 where "sysf fname = None" "functions_table s fname = None"
      "find_function_def (module_body s) fname = Some (params, body)" "n = Suc m"
      "analysis_function m sysf body types s = Inr ((g, t), s0)"
      "s1 = s0\<lparr>functions_table := (functions_table s0)(fname \<mapsto> Function fname types t g)\<rparr>"
proof (cases "sysf fname")
  case (Some t0)
  with assms have "t0 = t" "s1 = s"
    by (simp_all add: get_function_return_type.simps)
  with Some show ?thesis by (intro builtin) simp_all
next
  case None
  show ?thesis
  proof (cases "functions_table s fname")
    case (Some f)
    with None assms have "args_type f = types" "return_type f = t" "s1 = s"
      by (simp_all add: get_function_return_type.simps is_args_type_match_def
            list_all2_eq [symmetric] split: if_splits)
    with None Some show ?thesis by (intro cached)
  next
    case no_entry: None
    show ?thesis
    proof (cases "find_function_def (module_body s) fname")
      case no_def: None
      with None no_entry assms have "t = STRING" "s1 = s"
        by (simp_all add: get_function_return_type.simps)
      with None no_entry no_def show ?thesis by (intro unknown)
    next
      case (Some pb)
      obtain params body where pb: "pb = (params, body)" by (cases pb)
      from None no_entry Some pb assms obtain m where m: "n = Suc m"
        by (cases n) (simp_all add: get_function_return_type.simps)
      from None no_entry Some pb m assms obtain g s0 where
        "analysis_function m sysf body types s = Inr ((g, t), s0)"
        "s1 = s0\<lparr>functions_table := (functions_table s0)(fname \<mapsto> Function fname types t g)\<rparr>"
        by (auto simp add: get_function_return_type.simps functions_append_def
              split: sum.splits prod.splits)
      with None no_entry Some pb m show ?thesis by (intro analysed) simp_all
    qed
  qed
qed

subsection \<open>The walk over a function body\<close>

lemma analysis_function_body_append:
  "analysis_function_body n sysf (xs @ ys) vars rt s =
     (case analysis_function_body n sysf xs vars rt s of
        Inl e \<Rightarrow> Inl e
      | Inr (rt1, s1) \<Rightarrow> analysis_function_body n sysf ys vars rt1 s1)"
proof (induction xs arbitrary: rt s)
  case Nil
  show ?case by simp
next
  case (Cons x xs)
  show ?case
  proof (cases x)
    case (Return r)
    with Cons show ?thesis
      by (cases r) (simp_all split: sum.splits prod.splits)
  qed (use Cons in \<open>simp_all split: sum.splits prod.splits\<close>)
qed

lemma analysis_function_body_no_return:
  "\<forall>r. Return r \<notin> set body \<Longrightarrow>
     analysis_function_body n sysf body vars rt s = Inr (rt', s') \<Longrightarrow> rt' = rt"
proof (induction body arbitrary: s)
  case Nil
  then show ?case by simp
next
  case (Cons x xs)
  then show ?case
    by (cases x) (auto split: sum.splits prod.splits)
qed

section \<open>The claims\<close>

text \<open>
  C1, as amended. A binary \<open>Add\<close> whose operands infer without an error, where the
  left operand has a type and the right operand has a type whenever the left one is
  \<open>NUMBER\<close>: the result is \<open>NUMBER\<close> exactly when both operand types are \<open>NUMBER\<close>, in
  every other case it is \<open>STRING\<close>, and no error is raised. The right operand is
  inferred in the state the left one leaves.
\<close>

theorem add_type:
  assumes "get_type n sysf a s = Inr (Some ta, s1)"
      and "get_type n sysf b s1 = Inr (tb, s2)"
      and "ta = NUMBER \<longrightarrow> tb \<noteq> None"
  shows "get_type n sysf (BinOp a Add b) s =
           Inr (Some (if ta = NUMBER \<and> tb = Some NUMBER then NUMBER else STRING), s2)"
  using assms by (cases tb) (auto simp add: is_number_def)

theorem add_type_witness:
  "get_type 0 Map.empty (Num 1) adds_comparison = Inr (Some NUMBER, adds_comparison)
   \<and> get_type 0 Map.empty (Str ''a'') adds_comparison = Inr (Some STRING, adds_comparison)
   \<and> get_type 0 Map.empty (Other_expr ''Compare'') adds_comparison
       = Inr (None, adds_comparison)
   \<and> get_type 0 Map.empty (BinOp (Num 1) Add (Num 2)) adds_comparison
       = Inr (Some NUMBER, adds_comparison)
   \<and> get_type 0 Map.empty (BinOp (Num 1) Add (Str ''a'')) adds_comparison
       = Inr (Some STRING, adds_comparison)
   \<and> get_type 0 Map.empty (BinOp (Str ''a'') Add (Other_expr ''Compare'')) adds_comparison
       = Inr (Some STRING, adds_comparison)"
  using add_type [where n = 0 and sysf = Map.empty and a = "Num 1" and b = "Num 2"
      and s = adds_comparison and ?s1.0 = adds_comparison and ?s2.0 = adds_comparison
      and ta = NUMBER and tb = "Some NUMBER"]
    add_type [where n = 0 and sysf = Map.empty and a = "Num 1" and b = "Str ''a''"
      and s = adds_comparison and ?s1.0 = adds_comparison and ?s2.0 = adds_comparison
      and ta = NUMBER and tb = "Some STRING"]
    add_type [where n = 0 and sysf = Map.empty and a = "Str ''a''"
      and b = "Other_expr ''Compare''"
      and s = adds_comparison and ?s1.0 = adds_comparison and ?s2.0 = adds_comparison
      and ta = STRING and tb = None]
  by simp

text \<open>
  C1 as stated fails where an operand infers to no type: in \<open>x = 1 + (1 < 2)\<close> the
  comparison has no branch in \<open>get_type\<close>, which returns \<open>None\<close> for it without an
  error, and the addition then raises \<open>AttributeError\<close> instead of giving \<open>STRING\<close>.
\<close>

theorem add_untyped_operand_counterexample:
  "get_type 0 Map.empty (Num 1) adds_comparison = Inr (Some NUMBER, adds_comparison)
   \<and> get_type 0 Map.empty (Other_expr ''Compare'') adds_comparison
       = Inr (None, adds_comparison)
   \<and> get_type 0 Map.empty (BinOp (Num 1) Add (Other_expr ''Compare'')) adds_comparison
       = Inl (AttributeError ''is_number'')
   \<and> analysis 0 Map.empty adds_comparison = Inl (AttributeError ''is_number'')"
  by (simp add: adds_comparison_def is_number_def eval_simps)

text \<open>
  C2, as amended. A binary operation with any operator other than \<open>Add\<close>, whose
  operands infer without an error, where the left operand has a type and the right
  operand has a type whenever the left one is \<open>NUMBER\<close>: the result is \<open>NUMBER\<close> when
  both operand types are \<open>NUMBER\<close>, and otherwise a \<open>CompileError\<close> whose message carries
  the operator's class name, which no other operator shares. It is never \<open>STRING\<close>.
\<close>

theorem non_add_type:
  assumes "op \<noteq> Add"
      and "get_type n sysf a s = Inr (Some ta, s1)"
      and "get_type n sysf b s1 = Inr (tb, s2)"
      and "ta = NUMBER \<longrightarrow> tb \<noteq> None"
  shows "get_type n sysf (BinOp a op b) s =
           (if ta = NUMBER \<and> tb = Some NUMBER then Inr (Some NUMBER, s2)
            else Inl (CompileError
                   (''Can not '' @ [CHR 0x27] @ class_name op @ [CHR 0x27]
                      @ '' operator with string.'')))
       \<and> (\<forall>op'. class_name op' = class_name op \<longrightarrow> op' = op)"
  using assms class_name_inj by (cases tb) (auto simp add: is_number_def)

theorem non_add_type_witness:
  "Sub \<noteq> Add \<and> Mult \<noteq> Add
   \<and> get_type 0 Map.empty (BinOp (Num 1) Sub (Num 2)) subtracts_comparison
       = Inr (Some NUMBER, subtracts_comparison)
   \<and> get_type 0 Map.empty (BinOp (Num 1) Sub (Str ''a'')) subtracts_comparison
       = Inl (CompileError
               (''Can not '' @ [CHR 0x27] @ ''Sub'' @ [CHR 0x27] @ '' operator with string.''))
   \<and> get_type 0 Map.empty (BinOp (Str ''a'') Mult (Other_expr ''Compare''))
         subtracts_comparison
       = Inl (CompileError
               (''Can not '' @ [CHR 0x27] @ ''Mult'' @ [CHR 0x27] @ '' operator with string.''))"
  using non_add_type [where op = Sub and n = 0 and sysf = Map.empty and a = "Num 1"
      and b = "Num 2" and s = subtracts_comparison and ?s1.0 = subtracts_comparison
      and ?s2.0 = subtracts_comparison and ta = NUMBER and tb = "Some NUMBER"]
    non_add_type [where op = Sub and n = 0 and sysf = Map.empty and a = "Num 1"
      and b = "Str ''a''" and s = subtracts_comparison and ?s1.0 = subtracts_comparison
      and ?s2.0 = subtracts_comparison and ta = NUMBER and tb = "Some STRING"]
    non_add_type [where op = Mult and n = 0 and sysf = Map.empty and a = "Str ''a''"
      and b = "Other_expr ''Compare''" and s = subtracts_comparison
      and ?s1.0 = subtracts_comparison and ?s2.0 = subtracts_comparison
      and ta = STRING and tb = None]
  by simp

text \<open>
  C2 as stated fails where an operand infers to no type: in \<open>x = 1 - (1 < 2)\<close> the
  subtraction raises \<open>AttributeError\<close>, not the \<open>CompileError\<close> that names the operator.
\<close>

theorem non_add_untyped_operand_counterexample:
  "Sub \<noteq> Add
   \<and> get_type 0 Map.empty (Num 1) subtracts_comparison
       = Inr (Some NUMBER, subtracts_comparison)
   \<and> get_type 0 Map.empty (Other_expr ''Compare'') subtracts_comparison
       = Inr (None, subtracts_comparison)
   \<and> get_type 0 Map.empty (BinOp (Num 1) Sub (Other_expr ''Compare'')) subtracts_comparison
       = Inl (AttributeError ''is_number'')
   \<and> analysis 0 Map.empty subtracts_comparison = Inl (AttributeError ''is_number'')"
  by (simp add: subtracts_comparison_def is_number_def eval_simps)

text \<open>
  C3, as amended. When a call is resolved from a \<open>FunctionDef\<close>, the signature is
  cached with a return type that is the inferred type of the expression of the last
  \<open>Return\<close> among the body's top-level statements, inferred in the state the statements
  before it leave; \<open>VOID\<close> when that inference gives no type, when the last \<open>Return\<close>
  has no expression, and when the body has no top-level \<open>Return\<close>.
\<close>

theorem cached_return_type_is_last_return:
  assumes "sysf fname = None" and "functions_table s fname = None"
      and "find_function_def (module_body s) fname = Some (params, body)"
      and "get_function_return_type n sysf fname types s = Inr (rt, s')"
  shows "(\<exists>g. functions_table s' fname = Some (Function fname types rt g))
       \<and> ((\<forall>r. Return r \<notin> set body) \<longrightarrow> rt = VOID)
       \<and> (\<forall>pre r post. body = pre @ Return r # post \<and> (\<forall>r'. Return r' \<notin> set post)
            \<longrightarrow>
            (\<exists>m rt0 s1. n = Suc m
               \<and> analysis_function_body m sysf pre (Local (length (locals s))) VOID
                    (s\<lparr>locals := locals s @ [Map.empty]\<rparr>) = Inr (rt0, s1)
               \<and> (case r of
                     None \<Rightarrow> rt = VOID
                   | Some v \<Rightarrow>
                       (\<exists>t s2. get_type m sysf v s1 = Inr (t, s2)
                          \<and> rt = (case t of None \<Rightarrow> VOID | Some ty \<Rightarrow> ty)))))"
proof -
  from assms(4) assms(1-3) obtain m g s0 where m: "n = Suc m"
    and af: "analysis_function m sysf body types s = Inr ((g, rt), s0)"
    and s': "s' = s0\<lparr>functions_table := (functions_table s0)(fname \<mapsto> Function fname types rt g)\<rparr>"
    by (cases rule: resolve_cases) simp_all
  let ?vars = "Local (length (locals s))"
  let ?s = "s\<lparr>locals := locals s @ [Map.empty]\<rparr>"
  from af have walk: "analysis_function_body m sysf body ?vars VOID ?s = Inr (rt, s0)"
    by (simp add: analysis_function.simps split: sum.splits prod.splits)
  from s' have c1: "\<exists>g. functions_table s' fname = Some (Function fname types rt g)"
    by simp
  from walk have c2: "(\<forall>r. Return r \<notin> set body) \<longrightarrow> rt = VOID"
    using analysis_function_body_no_return by blast
  have c3: "\<exists>m rt0 s1. n = Suc m
               \<and> analysis_function_body m sysf pre ?vars VOID ?s = Inr (rt0, s1)
               \<and> (case r of
                     None \<Rightarrow> rt = VOID
                   | Some v \<Rightarrow>
                       (\<exists>t s2. get_type m sysf v s1 = Inr (t, s2)
                          \<and> rt = (case t of None \<Rightarrow> VOID | Some ty \<Rightarrow> ty)))"
    if body: "body = pre @ Return r # post" and post: "\<forall>r'. Return r' \<notin> set post"
    for pre r post
  proof -
    from walk body obtain rt0 s1 where
      pre: "analysis_function_body m sysf pre ?vars VOID ?s = Inr (rt0, s1)"
      and rest: "analysis_function_body m sysf (Return r # post) ?vars rt0 s1 = Inr (rt, s0)"
      by (auto simp add: analysis_function_body_append split: sum.splits prod.splits)
    have "case r of
            None \<Rightarrow> rt = VOID
          | Some v \<Rightarrow>
              (\<exists>t s2. get_type m sysf v s1 = Inr (t, s2)
                 \<and> rt = (case t of None \<Rightarrow> VOID | Some ty \<Rightarrow> ty))"
    proof (cases r)
      case None
      with rest post show ?thesis
        by (auto dest: analysis_function_body_no_return)
    next
      case (Some v)
      with rest obtain t s2 where v: "get_type m sysf v s1 = Inr (t, s2)"
        and tail: "analysis_function_body m sysf post ?vars
                     (case t of None \<Rightarrow> VOID | Some ty \<Rightarrow> ty) s2 = Inr (rt, s0)"
        by (auto split: sum.splits prod.splits)
      from tail post have "rt = (case t of None \<Rightarrow> VOID | Some ty \<Rightarrow> ty)"
        by (rule analysis_function_body_no_return [rotated])
      with v Some show ?thesis by auto
    qed
    with m pre show ?thesis by blast
  qed
  from c1 c2 c3 show ?thesis by blast
qed

theorem cached_return_type_is_last_return_witness:
  "Map.empty ''f'' = (None :: Type option)
   \<and> functions_table two_returns ''f'' = None
   \<and> find_function_def (module_body two_returns) ''f''
       = Some ([], [Return (Some (Num 1)), Return (Some (ListExpr []))])
   \<and> get_function_return_type (Suc 0) Map.empty ''f'' [] two_returns
       = Inr (LIST, two_returns_resolved)
   \<and> functions_table two_returns_resolved ''f''
       = Some (Function ''f'' [] LIST (CodeGenerator (code two_returns) False (Local 0)))"
  using cached_return_type_is_last_return [where n = "Suc 0" and sysf = Map.empty
      and fname = "''f''" and types = "[]" and s = two_returns and rt = LIST
      and s' = two_returns_resolved and params = "[]"
      and body = "[Return (Some (Num 1)), Return (Some (ListExpr []))]"]
  by (simp add: two_returns_def two_returns_resolved_def eval_simps)

text \<open>
  C3 as stated fails for a body with two returns: in \<open>def f(): return 1; return []\<close>
  the first return's expression infers to \<open>NUMBER\<close>, and the signature is cached with
  \<open>LIST\<close>, the type of the last one.
\<close>

theorem first_return_counterexample:
  "get_type 0 Map.empty (Num 1) (two_returns\<lparr>locals := [Map.empty]\<rparr>)
     = Inr (Some NUMBER, two_returns\<lparr>locals := [Map.empty]\<rparr>)
   \<and> get_function_return_type (Suc 0) Map.empty ''f'' [] two_returns
     = Inr (LIST, two_returns_resolved)
   \<and> functions_table two_returns_resolved ''f''
     = Some (Function ''f'' [] LIST (CodeGenerator (code two_returns) False (Local 0)))"
  by (simp add: two_returns_def two_returns_resolved_def eval_simps)




text \<open>
  C5. The claim is that names inside a function body resolve against the body's own
  table, with the parameters typed from the call site. The code writes the body's
  assignments to the fresh table and reads every name from the module's table. So
  \<open>def f(a): return a\<close>, called as \<open>f(1)\<close>, fails on \<open>a\<close>; and in a module that sets
  \<open>x = []\<close>, the body \<open>x = 1; return x\<close> puts \<open>x\<close> as \<open>NUMBER\<close> into its own table and
  returns the module's \<open>LIST\<close>.
\<close>

theorem nested_scope_reads_module_table:
  "analysis (Suc 0) Map.empty uses_parameter = Inl (AttributeError ''var_type'')
   \<and> analysis (Suc 0) Map.empty shadows_global
     = Inr (CodeGenerator (code shadows_global) True Self_variables, shadows_global_analysed)
   \<and> (locals shadows_global_analysed ! 0) ''x'' = Some (Variable ''x'' (Some NUMBER))
   \<and> functions_table shadows_global_analysed ''f''
     = Some (Function ''f'' [] LIST (CodeGenerator (code shadows_global) False (Local 0)))"
  by (simp add: uses_parameter_def shadows_global_def shadows_global_analysed_def eval_simps)

text \<open>
  C6. A call to a name that is not built in and has a cached entry: when the call's
  argument types equal the cached ones, element by element, the cached return type is
  returned and the analyzer is unchanged; when they differ, a
  \<open>ParamTypeMismatchError\<close> carrying the function name is raised.
\<close>

theorem cached_signature_check:
  assumes "sysf fname = None" and "functions_table s fname = Some f"
  shows "(args_type f = types \<longrightarrow>
            get_function_return_type n sysf fname types s = Inr (return_type f, s))
       \<and> (args_type f \<noteq> types \<longrightarrow>
            get_function_return_type n sysf fname types s =
              Inl (ParamTypeMismatchError
                     (''Function '' @ [CHR 0x27] @ ''%s'' @ [CHR 0x27]
                        @ '' parameter type is not match'') fname))"
  using assms
  by (simp add: get_function_return_type.simps is_args_type_match_def
        list_all2_eq [symmetric])

theorem cached_signature_check_witness:
  "get_function_return_type 0 Map.empty ''f'' [Some NUMBER]
     ((new_analyzer ''f(1)'' [])\<lparr>functions_table :=
        [''f'' \<mapsto> Function ''f'' [Some NUMBER] VOID (CodeGenerator ''f(1)'' False (Local 0))]\<rparr>)
     = Inr (VOID, (new_analyzer ''f(1)'' [])\<lparr>functions_table :=
        [''f'' \<mapsto> Function ''f'' [Some NUMBER] VOID (CodeGenerator ''f(1)'' False (Local 0))]\<rparr>)
   \<and> get_function_return_type 0 Map.empty ''f'' [Some STRING]
     ((new_analyzer ''f(1)'' [])\<lparr>functions_table :=
        [''f'' \<mapsto> Function ''f'' [Some NUMBER] VOID (CodeGenerator ''f(1)'' False (Local 0))]\<rparr>)
     = Inl (ParamTypeMismatchError
              (''Function '' @ [CHR 0x27] @ ''%s'' @ [CHR 0x27]
                 @ '' parameter type is not match'') ''f'')"
  using cached_signature_check [where sysf = Map.empty and fname = "''f''" and n = 0
      and s = "(new_analyzer ''f(1)'' [])\<lparr>functions_table :=
        [''f'' \<mapsto> Function ''f'' [Some NUMBER] VOID (CodeGenerator ''f(1)'' False (Local 0))]\<rparr>"
      and f = "Function ''f'' [Some NUMBER] VOID (CodeGenerator ''f(1)'' False (Local 0))"
      and types = "[Some NUMBER]"]
    cached_signature_check [where sysf = Map.empty and fname = "''f''" and n = 0
      and s = "(new_analyzer ''f(1)'' [])\<lparr>functions_table :=
        [''f'' \<mapsto> Function ''f'' [Some NUMBER] VOID (CodeGenerator ''f(1)'' False (Local 0))]\<rparr>"
      and f = "Function ''f'' [Some NUMBER] VOID (CodeGenerator ''f(1)'' False (Local 0))"
      and types = "[Some STRING]"]
  by (simp add: new_analyzer_def)

text \<open>
  C7. A call to a name that is not built in, has no cached entry and has no
  \<open>FunctionDef\<close> among the module's top-level statements resolves to \<open>STRING\<close>, whatever
  the bound, and leaves the analyzer unchanged.
\<close>

theorem unknown_callee:
  assumes "sysf fname = None" and "functions_table s fname = None"
      and "\<forall>params body. FunctionDef fname params body \<notin> set (module_body s)"
  shows "get_function_return_type n sysf fname types s = Inr (STRING, s)"
  using assms
  by (simp add: get_function_return_type.simps find_function_def_None_iff [symmetric])

theorem unknown_callee_witness:
  "get_function_return_type 0 Map.empty ''g'' [Some NUMBER]
     (new_analyzer ''g(1)'' [Expr (Call (Name ''g'') [Num 1])])
   = Inr (STRING, new_analyzer ''g(1)'' [Expr (Call (Name ''g'') [Num 1])])"
  using unknown_callee [where sysf = Map.empty and fname = "''g''" and n = 0
      and s = "new_analyzer ''g(1)'' [Expr (Call (Name ''g'') [Num 1])]"
      and types = "[Some NUMBER]"]
  by (simp add: new_analyzer_def)

text \<open>
  C8. The rule the claim states is that a unary operation on a numeric operand is
  \<open>NUMBER\<close>. The code reads the unbound name \<open>operand\<close> before it can decide, so every
  unary operation raises \<open>NameError\<close>, here for \<open>-1\<close>.
\<close>

theorem unary_raises_name_error:
  "get_type n sysf (UnaryOp USub (Num 1)) s = Inl (NameError ''operand'')"
  by simp

text \<open>
  C9. A name reference whose name has no entry in the table \<open>get_type\<close> looks names
  up in fails: the lookup gives nothing and the read of \<open>var_type\<close> on it raises. No
  type is returned.
\<close>




text \<open>
  C10, as amended. A visited node of kind \<open>BinOp\<close>, \<open>UnaryOp\<close>, \<open>Num\<close>, \<open>Str\<close>, \<open>List\<close> or
  \<open>Call\<close> yields one of the four types or an error, never an absent result. A \<open>Name\<close>
  that yields a result yields what its table entry stores, and a node of any other
  kind yields the absent result \<open>None\<close> without an error.
\<close>

theorem visited_node_result:
  "get_type n sysf (BinOp left op right) s \<noteq> Inr (None, s')
   \<and> get_type n sysf (UnaryOp uop operand) s \<noteq> Inr (None, s')
   \<and> get_type n sysf (Num v) s = Inr (Some NUMBER, s)
   \<and> get_type n sysf (Str w) s = Inr (Some STRING, s)
   \<and> get_type n sysf (ListExpr elts) s = Inr (Some LIST, s)
   \<and> get_type n sysf (Call func args) s \<noteq> Inr (None, s')
   \<and> (get_type n sysf (Name ident) s = Inr (t, s')
        \<longrightarrow> (\<exists>entry. variables s ident = Some entry \<and> t = var_type entry \<and> s' = s))
   \<and> get_type n sysf (Other_expr k) s = Inr (None, s)"
  by (auto split: sum.splits prod.splits if_splits expr.splits option.splits)

theorem visited_node_result_witness:
  "get_type 0 Map.empty (Name ''x'') assigns_dict_analysed = Inr (None, assigns_dict_analysed)
   \<and> variables assigns_dict_analysed ''x'' = Some (Variable ''x'' None)
   \<and> get_type 0 Map.empty (BinOp (Num 1) Add (Str ''a'')) assigns_dict_analysed
       = Inr (Some STRING, assigns_dict_analysed)"
  using visited_node_result [where n = 0 and sysf = Map.empty and ident = "''x''"
      and s = assigns_dict_analysed and s' = assigns_dict_analysed and t = None]
  by (simp add: assigns_dict_analysed_def is_number_def)

text \<open>
  C10 as stated fails for a node kind without a branch: the dictionary display in
  \<open>x = {}\<close> falls through \<open>get_type\<close>, which returns \<open>None\<close>; the driver stores that for
  \<open>x\<close>, and \<open>y = x\<close> then reads it back, so \<open>y\<close> has no type either.
\<close>

theorem absent_result_counterexample:
  "get_type 0 Map.empty (Other_expr ''Dict'') assigns_dict = Inr (None, assigns_dict)
   \<and> analysis 0 Map.empty assigns_dict
     = Inr (CodeGenerator (code assigns_dict) True Self_variables, assigns_dict_analysed)
   \<and> variables assigns_dict_analysed ''y'' = Some (Variable ''y'' None)"
  by (simp add: assigns_dict_def assigns_dict_analysed_def eval_simps)

end
